theory Spec2Isabelle
  imports Complex_Main "HOL-Library.Word"
begin

section \<open>Data model of \<open>src/backend/main_v2.py\<close>\<close>

text \<open>
  The values the handlers move around are Python objects that came from, or go to, JSON:
  \<open>None\<close>, booleans, numbers, strings, lists and dictionaries with string keys. A
  number is only ever carried, never computed with. A dictionary is an association list;
  \<open>d.get(k)\<close> reads the first binding of \<open>k\<close>.
\<close>

datatype json =
    JNull
  | JBool bool
  | JNum real
  | JStr string
  | JArr "json list"
  | JObj "(string \<times> json) list"

type_synonym dict = "(string \<times> json) list"

type_synonym bytes = "8 word list"

text \<open>
  \<open>state.app_state\<close> only ever holds one of three string constants; \<open>state_name\<close>
  gives the string back.
\<close>

datatype SessionState = IDLE | BLANKING_COUNTDOWN | SCANNING

fun state_name :: "SessionState \<Rightarrow> string" where
  "state_name IDLE = ''IDLE''"
| "state_name BLANKING_COUNTDOWN = ''BLANKING_COUNTDOWN''"
| "state_name SCANNING = ''SCANNING''"

text \<open>The class \<open>AppState\<close> (lines 31-37).\<close>

record AppState =
  app_state :: SessionState
  ui_state_text :: string
  latest_frame_jpeg :: "bytes option"
  scan_history :: "json list"
  current_scan_data :: "json option"

definition init_state :: AppState where
  "init_state =
     \<lparr> app_state = IDLE,
       ui_state_text = ''State: IDLE'',
       latest_frame_jpeg = None,
       scan_history = [],
       current_scan_data = None \<rparr>"

text \<open>
  Exceptions are values. \<open>HTTPException(status_code, detail)\<close> is what a handler
  answers with; the other constructors are the exceptions that the library calls of the
  handlers raise. A handler whose body sits in \<open>try: ... except Exception as e: raise
  HTTPException(status_code=500, detail=str(e))\<close> answers with status 500 and the text
  of the caught exception, written \<open>StrOf e\<close>.
\<close>

datatype exn =
    HTTPException nat detail
  | AttributeError json string
  | JSONDecodeError string
  | CvError string
and detail =
    Text string
  | StrOf exn

fun status_code :: "exn \<Rightarrow> nat option" where
  "status_code (HTTPException c d) = Some c"
| "status_code e = None"

text \<open>The \<open>except Exception as e\<close> clause of lines 90, 156 and 184.\<close>

definition except_500 :: "exn + 'a \<Rightarrow> exn + 'a" where
  "except_500 r = (case r of Inl e \<Rightarrow> Inl (HTTPException 500 (StrOf e)) | Inr v \<Rightarrow> Inr v)"

text \<open>Truth value of an optional dictionary, as \<open>if state.current_scan_data:\<close> reads it.\<close>

fun truthy :: "json \<Rightarrow> bool" where
  "truthy JNull = False"
| "truthy (JBool b) = b"
| "truthy (JNum x) = (x \<noteq> 0)"
| "truthy (JStr s) = (s \<noteq> [])"
| "truthy (JArr xs) = (xs \<noteq> [])"
| "truthy (JObj kvs) = (kvs \<noteq> [])"

definition truthy_opt :: "json option \<Rightarrow> bool" where
  "truthy_opt v = (case v of None \<Rightarrow> False | Some j \<Rightarrow> truthy j)"

section \<open>Action endpoint\<close>

text \<open>
  \<open>handle_action\<close> (lines 96-129). \<open>now_iso\<close> is the text that
  \<open>datetime.now().isoformat()\<close> returns at the call. The result is the state afterwards,
  the arguments of the \<open>_save_scan_record\<close> tasks added to \<open>background_tasks\<close>, and the
  response or the exception.
\<close>

definition new_scan_data :: "string \<Rightarrow> json" where
  "new_scan_data now_iso =
     JObj [(''timestamp'', JStr now_iso), (''frames'', JArr []), (''analysis'', JNull)]"

definition handle_action ::
  "string \<Rightarrow> string \<Rightarrow> AppState \<Rightarrow> AppState \<times> json list \<times> (exn + dict)" where
  "handle_action action now_iso st =
     (if action = ''start-scan'' then
        (st\<lparr> app_state := BLANKING_COUNTDOWN,
             ui_state_text := ''State: BLANKING_COUNTDOWN'',
             current_scan_data := Some (new_scan_data now_iso) \<rparr>,
         [],
         Inr [(''status'', JStr ''scan_started'')])
      else if action = ''stop-scan'' then
        (let (tasks, hist) =
               (if truthy_opt (current_scan_data st)
                then (case current_scan_data st of
                        Some d \<Rightarrow> ([d], scan_history st @ [d])
                      | None \<Rightarrow> ([], scan_history st))
                else ([], scan_history st))
         in (st\<lparr> scan_history := hist,
                  app_state := IDLE,
                  ui_state_text := ''State: IDLE'',
                  current_scan_data := None \<rparr>,
             tasks,
             Inr [(''status'', JStr ''scan_stopped'')]))
      else if action = ''proceed-to-scan'' then
        (st\<lparr> app_state := SCANNING,
             ui_state_text := ''State: SCANNING'' \<rparr>,
         [],
         Inr [(''status'', JStr ''proceeding_to_scan'')])
      else
        (st, [], Inl (HTTPException 400 (Text (''Unknown action: '' @ action)))))"

text \<open>
  A sequence of requests to the action endpoint, each with the clock reading of its
  call. Every request is handled on the state the one before left, whether it was
  answered with a response or with an exception.
\<close>

fun run_actions :: "AppState \<Rightarrow> (string \<times> string) list \<Rightarrow> AppState" where
  "run_actions st [] = st"
| "run_actions st ((action, now_iso) # rest) =
     run_actions (fst (handle_action action now_iso st)) rest"

text \<open>
  The transition table as the specification words it: a listed pair gives the next
  state, every other pair is rejected. \<open>start-scan\<close> is listed from \<open>IDLE\<close> only,
  \<open>proceed-to-scan\<close> from \<open>BLANKING_COUNTDOWN\<close> only, \<open>stop-scan\<close> from every state.
\<close>

definition table_4_1 :: "SessionState \<Rightarrow> string \<Rightarrow> SessionState option" where
  "table_4_1 s action =
     (if action = ''start-scan'' \<and> s = IDLE then Some BLANKING_COUNTDOWN
      else if action = ''proceed-to-scan'' \<and> s = BLANKING_COUNTDOWN then Some SCANNING
      else if action = ''stop-scan'' then Some IDLE
      else None)"

text \<open>The next state as the code decides it: from the action name alone.\<close>

definition action_target :: "string \<Rightarrow> SessionState option" where
  "action_target action =
     (if action = ''start-scan'' then Some BLANKING_COUNTDOWN
      else if action = ''stop-scan'' then Some IDLE
      else if action = ''proceed-to-scan'' then Some SCANNING
      else None)"

text \<open>
  What holds of every state that requests to the action endpoint can produce: the label
  follows the state, a session is one made by \<open>start-scan\<close>, none is left in \<open>IDLE\<close>
  and one is there in \<open>BLANKING_COUNTDOWN\<close>.
\<close>

definition is_scan_data :: "json \<Rightarrow> bool" where
  "is_scan_data d =
     (case d of
        JObj [(k1, JStr t), (k2, JArr []), (k3, JNull)] \<Rightarrow>
          k1 = ''timestamp'' \<and> k2 = ''frames'' \<and> k3 = ''analysis''
      | _ \<Rightarrow> False)"

definition session_inv :: "AppState \<Rightarrow> bool" where
  "session_inv st =
     (ui_state_text st = ''State: '' @ state_name (app_state st) \<and>
      (case current_scan_data st of
         None \<Rightarrow> app_state st \<noteq> BLANKING_COUNTDOWN
       | Some d \<Rightarrow> app_state st \<noteq> IDLE \<and> is_scan_data d))"

section \<open>Frame endpoints\<close>

text \<open>
  What \<open>cv2.imdecode\<close> does with a buffer: it returns an image, returns \<open>None\<close>, or
  raises \<open>cv2.error\<close>. The codec is a library outside the repository, so the handler
  takes it as a parameter.
\<close>

datatype decode_outcome = Decoded | NotDecoded | DecodeRaised string

text \<open>
  \<open>receive_frame\<close> (lines 69-91). The assignment to \<open>state.latest_frame_jpeg\<close> is the
  first statement under the lock, before the decoding; the \<open>HTTPException\<close> with status
  400 is raised inside the \<open>try\<close> and caught by its \<open>except Exception\<close>.
\<close>

definition receive_frame ::
  "(bytes \<Rightarrow> decode_outcome) \<Rightarrow> bytes \<Rightarrow> AppState \<Rightarrow> AppState \<times> (exn + dict)" where
  "receive_frame imdecode contents st =
     (let st1 = st\<lparr> latest_frame_jpeg := Some contents \<rparr>
      in (st1,
          except_500
            (case imdecode contents of
               DecodeRaised msg \<Rightarrow> Inl (CvError msg)
             | NotDecoded \<Rightarrow> Inl (HTTPException 400 (Text ''Invalid JPEG''))
             | Decoded \<Rightarrow>
                 Inr [(''status'', JStr ''ok''),
                      (''frame_size'', JNum (real (length contents)))])))"

text \<open>\<open>get_latest_frame\<close> (lines 58-64); \<open>not b\<close> holds of \<open>None\<close> and of empty bytes.\<close>

definition get_latest_frame :: "AppState \<Rightarrow> exn + bytes" where
  "get_latest_frame st =
     (case latest_frame_jpeg st of
        None \<Rightarrow> Inl (HTTPException 404 (Text ''No frame available''))
      | Some b \<Rightarrow>
          if b = [] then Inl (HTTPException 404 (Text ''No frame available''))
          else Inr b)"

section \<open>Records and history\<close>

text \<open>
  The records directory: a file path is mapped to the text of the file. \<open>json.dump\<close>
  and \<open>json.load\<close> are library calls, taken as parameters: \<open>json_dump\<close> gives the text
  written for a value, \<open>json_load\<close> the value read from a text, or the message of the
  \<open>JSONDecodeError\<close> it raises. Writing a file is taken to succeed.
\<close>

type_synonym files = "string \<rightharpoonup> string"

definition RECORDS_DIR :: string where
  "RECORDS_DIR = ''records''"

text \<open>\<open>d.get(key, default)\<close> on a dictionary.\<close>

definition dict_get :: "dict \<Rightarrow> string \<Rightarrow> json \<Rightarrow> json" where
  "dict_get d k dflt = (case map_of d k of None \<Rightarrow> dflt | Some v \<Rightarrow> v)"

text \<open>
  \<open>x.get(key)\<close> on any value: only a dictionary has the method, every other value
  raises \<open>AttributeError\<close>.
\<close>

definition value_get :: "json \<Rightarrow> string \<Rightarrow> exn + json" where
  "value_get x k =
     (case x of
        JObj d \<Rightarrow> Inr (dict_get d k JNull)
      | _ \<Rightarrow> Inl (AttributeError x ''get''))"

text \<open>
  \<open>save_result\<close> (lines 134-157). \<open>now_stamp\<close> is the text that
  \<open>datetime.now().strftime('%Y%m%d_%H%M%S')\<close> returns, \<open>now_iso\<close> the one that the later
  \<open>datetime.now().isoformat()\<close> returns. The file is written first; the history entry
  is built after it, and an exception while building it leaves the history as it was.
\<close>

definition save_result ::
  "(json \<Rightarrow> string) \<Rightarrow> string \<Rightarrow> string \<Rightarrow> dict \<Rightarrow> AppState \<times> files
     \<Rightarrow> AppState \<times> files \<times> (exn + dict)" where
  "save_result json_dump now_stamp now_iso result_data w =
     (let st = fst w;
          fs = snd w;
          filename = RECORDS_DIR @ ''/scan_'' @ now_stamp @ ''.json'';
          fs1 = fs(filename \<mapsto> json_dump (JObj result_data));
          analysis = dict_get result_data ''analysis'' (JObj [])
      in case value_get analysis ''v0'' of
           Inl e \<Rightarrow> (st, fs1, except_500 (Inl e))
         | Inr v0 \<Rightarrow>
             (case value_get analysis ''r_squared'' of
                Inl e \<Rightarrow> (st, fs1, except_500 (Inl e))
              | Inr r_squared \<Rightarrow>
                  (st\<lparr> scan_history := scan_history st @
                         [JObj [(''timestamp'', JStr now_iso),
                                (''filename'', JStr filename),
                                (''v0'', v0),
                                (''r_squared'', r_squared)]] \<rparr>,
                   fs1,
                   Inr [(''status'', JStr ''saved''), (''filename'', JStr filename)])))"

text \<open>\<open>get_scan_record\<close> (lines 170-185); the 404 is raised inside the \<open>try\<close>.\<close>

definition get_scan_record ::
  "(string \<Rightarrow> string + json) \<Rightarrow> string \<Rightarrow> files \<Rightarrow> exn + json" where
  "get_scan_record json_load scan_id fs =
     (let filepath = RECORDS_DIR @ ''/'' @ scan_id @ ''.json''
      in except_500
           (case fs filepath of
              None \<Rightarrow> Inl (HTTPException 404 (Text ''Scan not found''))
            | Some text \<Rightarrow>
                (case json_load text of
                   Inl msg \<Rightarrow> Inl (JSONDecodeError msg)
                 | Inr data \<Rightarrow> Inr data)))"

text \<open>
  \<open>_save_scan_record\<close> (lines 190-198), the background task; it returns nothing and
  raises nothing.
\<close>

definition save_scan_record :: "(json \<Rightarrow> string) \<Rightarrow> string \<Rightarrow> json \<Rightarrow> files \<Rightarrow> files" where
  "save_scan_record json_dump now_stamp scan_data fs =
     fs(RECORDS_DIR @ ''/scan_'' @ now_stamp @ ''.json'' \<mapsto> json_dump scan_data)"

text \<open>
  The slice \<open>xs[i:]\<close>: a negative \<open>i\<close> counts from the end, and a start before the
  first element is the first element.
\<close>

definition slice_from :: "int \<Rightarrow> 'a list \<Rightarrow> 'a list" where
  "slice_from i xs =
     (let n = int (length xs);
          start = (if i < 0 then max (n + i) 0 else min i n)
      in drop (nat start) xs)"

text \<open>
  \<open>get_scan_history\<close> (lines 160-167). Like the other handlers it gives the state it
  leaves; the body assigns nothing and the slice is a new list.
\<close>

record history_response =
  count :: nat
  scans :: "json list"

definition get_scan_history :: "AppState \<Rightarrow> AppState \<times> history_response" where
  "get_scan_history st =
     (st, \<lparr> count = length (scan_history st),
            scans = slice_from (- 20) (scan_history st) \<rparr>)"

section \<open>Unknown action names\<close>

text \<open>
  C7. For every state and every action name other than \<open>start-scan\<close>, \<open>stop-scan\<close> and
  \<open>proceed-to-scan\<close>, \<open>handle_action\<close> returns the state as it was (so the session
  state, the current session and the history are unchanged), schedules nothing, and
  raises the exception with status 400 whose detail is \<open>Unknown action: \<close> followed by
  the action name.
\<close>

theorem unknown_action_rejected:
  assumes "action \<noteq> ''start-scan''" "action \<noteq> ''stop-scan''" "action \<noteq> ''proceed-to-scan''"
  shows "handle_action action now_iso st =
           (st, [], Inl (HTTPException 400 (Text (''Unknown action: '' @ action))))"
  using assms by (simp add: handle_action_def)

theorem unknown_action_rejected_witness:
  "handle_action ''pause-scan'' ''2024-05-01T10:00:00'' init_state =
     (init_state, [], Inl (HTTPException 400 (Text ''Unknown action: pause-scan'')))"
  using unknown_action_rejected [where action = "''pause-scan''"
      and now_iso = "''2024-05-01T10:00:00''" and st = init_state]
  by simp

section \<open>Helper facts about the action endpoint\<close>

lemma is_scan_data_new: "is_scan_data (new_scan_data t)"
  by (simp add: is_scan_data_def new_scan_data_def)

lemma is_scan_data_truthy: "is_scan_data d \<Longrightarrow> truthy d"
  by (auto simp: is_scan_data_def split: json.splits list.splits prod.splits)

lemma session_inv_init: "session_inv init_state"
  by (simp add: session_inv_def init_state_def)

lemma session_inv_step:
  assumes "session_inv st"
  shows "session_inv (fst (handle_action action now_iso st))"
  using assms
  by (auto simp: session_inv_def handle_action_def truthy_opt_def is_scan_data_new
           split: option.splits)

lemma session_inv_run: "session_inv st \<Longrightarrow> session_inv (run_actions st reqs)"
proof (induction reqs arbitrary: st)
  case Nil
  then show ?case by simp
next
  case (Cons r reqs)
  obtain action now_iso where r: "r = (action, now_iso)" by (cases r)
  from Cons.prems have "session_inv (fst (handle_action action now_iso st))"
    by (rule session_inv_step)
  then show ?case unfolding r by (simp add: Cons.IH)
qed

section \<open>The transition table\<close>

text \<open>
  C1, as amended. For every state and action name, \<open>handle_action\<close> decides from the
  action name alone. On every pair the table lists it does what the table says:
  \<open>start-scan\<close> leads to \<open>BLANKING_COUNTDOWN\<close> with a new session (the clock reading, no
  frames, no analysis), \<open>proceed-to-scan\<close> leads to \<open>SCANNING\<close> and leaves the session
  alone, \<open>stop-scan\<close> leads to \<open>IDLE\<close>, drops the session and, if there was one,
  schedules its save and appends it to the history. An unrecognised name is rejected and
  the state is unchanged. \<open>start-scan\<close> and \<open>proceed-to-scan\<close> are accepted from every
  state, with the same next state and effect: no pair with a recognised name is rejected.
\<close>

theorem handle_action_by_name:
  "(case handle_action action now_iso st of (st', tasks, r) \<Rightarrow>
      app_state st' = (case action_target action of Some s' \<Rightarrow> s' | None \<Rightarrow> app_state st) \<and>
      isl r = (action_target action = None) \<and>
      latest_frame_jpeg st' = latest_frame_jpeg st \<and>
      (action_target action = None \<longrightarrow> st' = st \<and> tasks = []) \<and>
      (\<forall>s'. table_4_1 (app_state st) action = Some s' \<longrightarrow> action_target action = Some s') \<and>
      (action = ''start-scan'' \<longrightarrow>
         current_scan_data st' = Some (new_scan_data now_iso) \<and>
         scan_history st' = scan_history st \<and> tasks = []) \<and>
      (action = ''proceed-to-scan'' \<longrightarrow>
         current_scan_data st' = current_scan_data st \<and>
         scan_history st' = scan_history st \<and> tasks = []) \<and>
      (action = ''stop-scan'' \<longrightarrow>
         current_scan_data st' = None \<and>
         (case current_scan_data st of
            None \<Rightarrow> scan_history st' = scan_history st \<and> tasks = []
          | Some d \<Rightarrow>
              if truthy d then scan_history st' = scan_history st @ [d] \<and> tasks = [d]
              else scan_history st' = scan_history st \<and> tasks = [])))"
  by (simp add: handle_action_def action_target_def table_4_1_def truthy_opt_def
           split: option.splits)

theorem handle_action_by_name_witness:
  "table_4_1 (app_state (run_actions init_state [(''start-scan'', ''2024-05-01T10:00:00'')]))
     ''stop-scan'' = Some IDLE \<and>
   (case handle_action ''stop-scan'' ''2024-05-01T10:05:00''
           (run_actions init_state [(''start-scan'', ''2024-05-01T10:00:00'')]) of
      (st', tasks, r) \<Rightarrow>
        app_state st' = IDLE \<and> \<not> isl r \<and> current_scan_data st' = None \<and>
        scan_history st' = [new_scan_data ''2024-05-01T10:00:00''] \<and>
        tasks = [new_scan_data ''2024-05-01T10:00:00''])"
  using handle_action_by_name [where action = "''stop-scan''"
      and now_iso = "''2024-05-01T10:05:00''"
      and st = "run_actions init_state [(''start-scan'', ''2024-05-01T10:00:00'')]"]
  by (simp add: handle_action_def init_state_def table_4_1_def action_target_def
        new_scan_data_def truthy_opt_def)

text \<open>
  The claim as stated fails: the table does not list \<open>proceed-to-scan\<close> from \<open>IDLE\<close>,
  and the code accepts it and moves to \<open>SCANNING\<close>.
\<close>

theorem proceed_from_idle_accepted:
  "table_4_1 (app_state init_state) ''proceed-to-scan'' = None \<and>
   app_state (fst (handle_action ''proceed-to-scan'' ''2024-05-01T10:00:00'' init_state))
     = SCANNING \<and>
   snd (snd (handle_action ''proceed-to-scan'' ''2024-05-01T10:00:00'' init_state))
     = Inr [(''status'', JStr ''proceeding_to_scan'')]"
  by (simp add: handle_action_def init_state_def table_4_1_def)

section \<open>Session and state\<close>

text \<open>
  C2, as amended. After every sequence of requests to the action endpoint from the
  initial state: in \<open>IDLE\<close> there is no session, and in \<open>BLANKING_COUNTDOWN\<close> there is
  one. (Nothing is said of \<open>SCANNING\<close>, which is reached with and without a session.)
\<close>

theorem session_exists_by_state:
  "(app_state (run_actions init_state reqs) = IDLE \<longrightarrow>
      current_scan_data (run_actions init_state reqs) = None) \<and>
   (app_state (run_actions init_state reqs) = BLANKING_COUNTDOWN \<longrightarrow>
      current_scan_data (run_actions init_state reqs) \<noteq> None)"
proof -
  have "session_inv (run_actions init_state reqs)"
    using session_inv_init by (rule session_inv_run)
  then show ?thesis
    by (auto simp: session_inv_def split: option.splits)
qed

theorem session_exists_by_state_witness:
  "app_state (run_actions init_state
       [(''start-scan'', ''2024-05-01T10:00:00''), (''stop-scan'', ''2024-05-01T10:05:00'')])
     = IDLE \<and>
   current_scan_data (run_actions init_state
       [(''start-scan'', ''2024-05-01T10:00:00''), (''stop-scan'', ''2024-05-01T10:05:00'')])
     = None \<and>
   app_state (run_actions init_state [(''start-scan'', ''2024-05-01T10:00:00'')])
     = BLANKING_COUNTDOWN \<and>
   current_scan_data (run_actions init_state [(''start-scan'', ''2024-05-01T10:00:00'')])
     \<noteq> None"
  using
    session_exists_by_state [of
      "[(''start-scan'', ''2024-05-01T10:00:00''), (''stop-scan'', ''2024-05-01T10:05:00'')]"]
    session_exists_by_state [of "[(''start-scan'', ''2024-05-01T10:00:00'')]"]
  by (simp add: handle_action_def init_state_def)

text \<open>
  The claim as stated fails: \<open>proceed-to-scan\<close> on the initial state gives \<open>SCANNING\<close>
  with no session.
\<close>

theorem scanning_without_session:
  "app_state (run_actions init_state [(''proceed-to-scan'', ''2024-05-01T10:00:00'')])
     = SCANNING \<and>
   current_scan_data (run_actions init_state [(''proceed-to-scan'', ''2024-05-01T10:00:00'')])
     = None"
  by (simp add: handle_action_def init_state_def)

section \<open>Stopping when nothing runs\<close>

text \<open>
  C8. When the state is \<open>IDLE\<close> and there is no session, \<open>stop-scan\<close> is answered with
  \<open>scan_stopped\<close>, schedules no save, and leaves the state \<open>IDLE\<close>, the session absent,
  the history and the latest frame as they were.
\<close>

theorem stop_scan_idle_noop:
  assumes "app_state st = IDLE" and "current_scan_data st = None"
  shows "(case handle_action ''stop-scan'' now_iso st of (st', tasks, r) \<Rightarrow>
            app_state st' = IDLE \<and> current_scan_data st' = None \<and>
            scan_history st' = scan_history st \<and>
            length (scan_history st') = length (scan_history st) \<and>
            latest_frame_jpeg st' = latest_frame_jpeg st \<and>
            tasks = [] \<and>
            r = Inr [(''status'', JStr ''scan_stopped'')])"
  using assms by (simp add: handle_action_def truthy_opt_def)

theorem stop_scan_idle_noop_witness:
  "app_state init_state = IDLE \<and> current_scan_data init_state = None \<and>
   handle_action ''stop-scan'' ''2024-05-01T10:00:00'' init_state =
     (init_state, [], Inr [(''status'', JStr ''scan_stopped'')])"
  using stop_scan_idle_noop [where st = init_state and now_iso = "''2024-05-01T10:00:00''"]
  by (simp add: handle_action_def init_state_def truthy_opt_def)

section \<open>The history view\<close>

lemma slice_from_last:
  assumes "0 < k"
  shows "slice_from (- int k) xs = drop (length xs - k) xs"
proof -
  have "nat (max (int (length xs) + - int k) 0) = length xs - k"
    by (simp add: max_def) linarith
  with assms show ?thesis by (simp add: slice_from_def)
qed

lemma slice_from_20: "slice_from (- 20) xs = drop (length xs - 20) xs"
  using slice_from_last [of 20 xs] by simp

text \<open>
  C6. For every history of length \<open>N\<close>, the history view holds \<open>min N 20\<close> entries; they
  are the end of the history, in the order of the history (oldest first); the view never
  holds more than 20; and the state, with the history in it, is left as it was.
\<close>

theorem history_view_last_20:
  "scans (snd (get_scan_history st)) = drop (length (scan_history st) - 20) (scan_history st) \<and>
   length (scans (snd (get_scan_history st))) = min (length (scan_history st)) 20 \<and>
   length (scans (snd (get_scan_history st))) \<le> 20 \<and>
   (\<exists>older. scan_history st = older @ scans (snd (get_scan_history st))) \<and>
   fst (get_scan_history st) = st"
proof -
  have view: "scans (snd (get_scan_history st))
                = drop (length (scan_history st) - 20) (scan_history st)"
    by (simp add: get_scan_history_def slice_from_20)
  have "scan_history st =
          take (length (scan_history st) - 20) (scan_history st) @
          scans (snd (get_scan_history st))"
    unfolding view by simp
  then have "\<exists>older. scan_history st = older @ scans (snd (get_scan_history st))" ..
  moreover have "fst (get_scan_history st) = st"
    by (simp add: get_scan_history_def)
  moreover have "length (scans (snd (get_scan_history st))) = min (length (scan_history st)) 20"
    unfolding view by simp
  ultimately show ?thesis using view by simp
qed

text \<open>
  C10. The \<open>count\<close> of the history response is the length of the whole history, not of
  the view: with more than 20 entries in the history it is above 20 and above the number
  of \<open>scans\<close> returned.
\<close>

theorem history_count_is_total:
  "count (snd (get_scan_history st)) = length (scan_history st) \<and>
   (20 < length (scan_history st) \<longrightarrow>
      20 < count (snd (get_scan_history st)) \<and>
      length (scans (snd (get_scan_history st))) < count (snd (get_scan_history st)))"
  by (simp add: get_scan_history_def slice_from_20)

theorem history_count_is_total_witness:
  "20 < length (scan_history (init_state\<lparr> scan_history := replicate 21 JNull \<rparr>)) \<and>
   count (snd (get_scan_history (init_state\<lparr> scan_history := replicate 21 JNull \<rparr>))) = 21 \<and>
   length (scans (snd (get_scan_history (init_state\<lparr> scan_history := replicate 21 JNull \<rparr>))))
     = 20"
  using history_count_is_total [where st = "init_state\<lparr> scan_history := replicate 21 JNull \<rparr>"]
  by (simp add: get_scan_history_def slice_from_20)

section \<open>Frame ingestion\<close>

text \<open>
  C3. What \<open>receive_frame\<close> does with a payload, decodable or not: the stored frame
  afterwards is the payload, and an exception is answered exactly when the codec gives
  no image. So with the frame \<open>[255, 216]\<close> stored and the payload \<open>[0]\<close>, which the
  codec rejects, the answer is an exception with status 500 around the one with status
  400, the stored frame is \<open>[0]\<close> and no longer \<open>[255, 216]\<close>, and
  \<open>get_latest_frame\<close> serves \<open>[0]\<close>.
\<close>

theorem receive_frame_stores_before_decoding:
  "latest_frame_jpeg (fst (receive_frame imdecode contents st)) = Some contents \<and>
   isl (snd (receive_frame imdecode contents st)) = (imdecode contents \<noteq> Decoded) \<and>
   receive_frame (\<lambda>b. NotDecoded) [0] (init_state\<lparr> latest_frame_jpeg := Some [255, 216] \<rparr>) =
     (init_state\<lparr> latest_frame_jpeg := Some [0] \<rparr>,
      Inl (HTTPException 500 (StrOf (HTTPException 400 (Text ''Invalid JPEG''))))) \<and>
   latest_frame_jpeg
     (fst (receive_frame (\<lambda>b. NotDecoded) [0]
        (init_state\<lparr> latest_frame_jpeg := Some [255, 216] \<rparr>))) \<noteq> Some [255, 216] \<and>
   get_latest_frame
     (fst (receive_frame (\<lambda>b. NotDecoded) [0]
        (init_state\<lparr> latest_frame_jpeg := Some [255, 216] \<rparr>))) = Inr [0]"
  by (simp add: receive_frame_def except_500_def get_latest_frame_def init_state_def
           split: decode_outcome.splits)

section \<open>Record retrieval\<close>

text \<open>
  C5. What \<open>get_scan_record\<close> answers when the file of the identifier is absent, and
  when its text does not parse: in both cases an exception with status 500. The one with
  status 404 that the handler raises for the absent file is caught by the handler's own
  \<open>except Exception\<close> and only survives as the text of the detail.
\<close>

theorem get_scan_record_errors_are_500:
  "get_scan_record json_load scan_id (fs(''records/'' @ scan_id @ ''.json'' := None)) =
     Inl (HTTPException 500 (StrOf (HTTPException 404 (Text ''Scan not found'')))) \<and>
   get_scan_record (\<lambda>t. Inl msg) scan_id (fs(''records/'' @ scan_id @ ''.json'' \<mapsto> text)) =
     Inl (HTTPException 500 (StrOf (JSONDecodeError msg))) \<and>
   status_code (HTTPException 500 (StrOf (HTTPException 404 (Text ''Scan not found''))))
     = Some 500 \<and>
   status_code (HTTPException 500 (StrOf (JSONDecodeError msg))) = Some 500"
  by (simp add: get_scan_record_def except_500_def RECORDS_DIR_def)

section \<open>Saving a result and reading it back\<close>

text \<open>
  C4, as amended. Let the payload have no \<open>analysis\<close> entry or a dictionary there, and
  let \<open>json_load\<close> read back what \<open>json_dump\<close> writes for the payload. Then
  \<open>save_result\<close> writes the payload to the file \<open>records/scan_<stamp>.json\<close>, appends
  to the history the summary with the clock reading, that file name and the \<open>v0\<close> and
  \<open>r_squared\<close> of the analysis, and answers \<open>saved\<close> with that file name; and
  \<open>get_scan_record\<close> with the identifier \<open>scan_<stamp>\<close>, the file name without the
  directory and the extension, gives the payload.
\<close>

theorem save_result_round_trip:
  assumes "json_load (json_dump (JObj result_data)) = Inr (JObj result_data)"
    and "dict_get result_data ''analysis'' (JObj []) = JObj analysis"
  shows "(case save_result json_dump now_stamp now_iso result_data (st, fs) of
            (st', fs', r) \<Rightarrow>
              fs' = fs(''records/scan_'' @ now_stamp @ ''.json'' \<mapsto> json_dump (JObj result_data)) \<and>
              scan_history st' = scan_history st @
                [JObj [(''timestamp'', JStr now_iso),
                       (''filename'', JStr (''records/scan_'' @ now_stamp @ ''.json'')),
                       (''v0'', dict_get analysis ''v0'' JNull),
                       (''r_squared'', dict_get analysis ''r_squared'' JNull)]] \<and>
              r = Inr [(''status'', JStr ''saved''),
                       (''filename'', JStr (''records/scan_'' @ now_stamp @ ''.json''))] \<and>
              get_scan_record json_load (''scan_'' @ now_stamp) fs' = Inr (JObj result_data))"
  using assms
  by (simp add: save_result_def get_scan_record_def value_get_def except_500_def
        RECORDS_DIR_def Let_def)

theorem save_result_round_trip_witness:
  "(case save_result (\<lambda>j. ''{...}'') ''20240501_100000'' ''2024-05-01T10:00:00.000001''
          [(''analysis'', JObj [(''v0'', JNum 2), (''r_squared'', JNum 1)])]
          (init_state, Map.empty) of
      (st', fs', r) \<Rightarrow>
        fs' ''records/scan_20240501_100000.json'' = Some ''{...}'' \<and>
        scan_history st' =
          [JObj [(''timestamp'', JStr ''2024-05-01T10:00:00.000001''),
                 (''filename'', JStr ''records/scan_20240501_100000.json''),
                 (''v0'', JNum 2), (''r_squared'', JNum 1)]] \<and>
        r = Inr [(''status'', JStr ''saved''),
                 (''filename'', JStr ''records/scan_20240501_100000.json'')] \<and>
        get_scan_record
          (\<lambda>t. if t = ''{...}''
                then Inr (JObj [(''analysis'', JObj [(''v0'', JNum 2), (''r_squared'', JNum 1)])])
                else Inl ''Expecting value'')
          ''scan_20240501_100000'' fs' =
        Inr (JObj [(''analysis'', JObj [(''v0'', JNum 2), (''r_squared'', JNum 1)])]))"
  using save_result_round_trip [where
      json_dump = "\<lambda>j. ''{...}''" and
      json_load = "\<lambda>t. if t = ''{...}''
                then Inr (JObj [(''analysis'', JObj [(''v0'', JNum 2), (''r_squared'', JNum 1)])])
                else Inl ''Expecting value''" and
      result_data = "[(''analysis'', JObj [(''v0'', JNum 2), (''r_squared'', JNum 1)])]" and
      analysis = "[(''v0'', JNum 2), (''r_squared'', JNum 1)]" and
      now_stamp = "''20240501_100000''" and now_iso = "''2024-05-01T10:00:00.000001''" and
      st = init_state and fs = Map.empty]
  by (auto simp: dict_get_def init_state_def split: prod.splits)

text \<open>
  The claim as stated fails twice. The value \<open>save_result\<close> returns is the file name,
  and \<open>get_scan_record\<close> with that value looks for
  \<open>records/records/scan_<stamp>.json.json\<close>, which is not there. And for a payload whose
  \<open>analysis\<close> is \<open>null\<close> the file is written, nothing is appended to the history and an
  exception is answered.
\<close>

theorem returned_filename_is_not_an_identifier:
  "(case save_result (\<lambda>j. ''{...}'') ''20240501_100000'' ''2024-05-01T10:00:00.000001''
          [(''analysis'', JObj [(''v0'', JNum 2), (''r_squared'', JNum 1)])]
          (init_state, Map.empty) of
      (st', fs', r) \<Rightarrow>
        r = Inr [(''status'', JStr ''saved''),
                 (''filename'', JStr ''records/scan_20240501_100000.json'')] \<and>
        get_scan_record
          (\<lambda>t. Inr (JObj [(''analysis'', JObj [(''v0'', JNum 2), (''r_squared'', JNum 1)])]))
          ''records/scan_20240501_100000.json'' fs' =
        Inl (HTTPException 500 (StrOf (HTTPException 404 (Text ''Scan not found''))))) \<and>
   (case save_result (\<lambda>j. ''{...}'') ''20240501_100000'' ''2024-05-01T10:00:00.000001''
          [(''analysis'', JNull)] (init_state, Map.empty) of
      (st', fs', r) \<Rightarrow>
        fs' ''records/scan_20240501_100000.json'' = Some ''{...}'' \<and>
        scan_history st' = [] \<and>
        r = Inl (HTTPException 500 (StrOf (AttributeError JNull ''get''))))"
  by (simp add: save_result_def get_scan_record_def value_get_def dict_get_def
        except_500_def RECORDS_DIR_def init_state_def Let_def)

end
